theory Spec2Isabelle
  imports Main
begin

section \<open>JavaScript values used by the worker\<close>

text \<open>
  Timestamps and latencies are integers (milliseconds); they stay far below \<open>2^53\<close>, where
  JavaScript numbers are exact. A column that may hold NULL is an \<open>option\<close>.
  \<open>new Date(s).getTime()\<close> is the platform's date parser; it is a parameter
  \<open>getTime\<close> of every function that calls it, and the stored strings are taken to be
  valid dates (the worker writes them with \<open>toISOString\<close>).
\<close>

text \<open>Truthiness of a string-or-null: null and the empty string are falsy.\<close>

definition truthy :: "string option \<Rightarrow> bool" where
  "truthy v = (case v of None \<Rightarrow> False | Some s \<Rightarrow> s \<noteq> [])"

text \<open>\<open>v || d\<close> on a number-or-null: null and 0 are falsy.\<close>

definition orInt :: "int option \<Rightarrow> int \<Rightarrow> int" where
  "orInt v d = (case v of None \<Rightarrow> d | Some n \<Rightarrow> if n = 0 then d else n)"

text \<open>\<open>v || d\<close> on a string-or-null.\<close>

definition orStr :: "string option \<Rightarrow> string \<Rightarrow> string" where
  "orStr v d = (case v of None \<Rightarrow> d | Some s \<Rightarrow> if s = [] then d else s)"

fun startsWith :: "string \<Rightarrow> string \<Rightarrow> bool" where
  "startsWith s [] = True"
| "startsWith [] (c # cs) = False"
| "startsWith (x # xs) (c # cs) = (x = c \<and> startsWith xs cs)"

text \<open>\<open>s.includes(sub)\<close>: \<open>sub\<close> occurs in \<open>s\<close> as a contiguous substring.\<close>

fun includes_str :: "string \<Rightarrow> string \<Rightarrow> bool" where
  "includes_str [] sub = (sub = [])"
| "includes_str (x # xs) sub = (startsWith (x # xs) sub \<or> includes_str xs sub)"

text \<open>Decimal rendering of a number inside a template literal.\<close>

definition digit :: "nat \<Rightarrow> char" where
  "digit n = ''0123456789'' ! (n mod 10)"

fun showNat :: "nat \<Rightarrow> string" where
  "showNat n = (if n < 10 then [digit n] else showNat (n div 10) @ [digit n])"

declare showNat.simps [simp del]

definition showInt :: "int \<Rightarrow> string" where
  "showInt i = (if i < 0 then CHR ''-'' # showNat (nat (- i)) else showNat (nat i))"

section \<open>The monitored target (a row of table monitors)\<close>

record monitor =
  id_m :: int
  name :: string
  url :: string
  request_method :: "string option"
  keyword :: "string option"
  interval :: "int option"
  status :: string
  retry_count :: int
  last_check :: "string option"
  check_info_status :: "string option"
  cert_expiry :: "string option"
  domain_expiry :: "string option"

section \<open>Due-ness: isTimeToCheck\<close>

definition isTimeToCheck :: "(string \<Rightarrow> int) \<Rightarrow> monitor \<Rightarrow> int \<Rightarrow> bool" where
  "isTimeToCheck getTime monitor now =
     (if status monitor = ''RETRYING'' then True
      else
        let lastCheck = (case last_check monitor of
                           None \<Rightarrow> 0
                         | Some s \<Rightarrow> if s = [] then 0 else getTime s);
            intervalMs = orInt (interval monitor) 300 * 1000
        in now - lastCheck \<ge> intervalMs)"

section \<open>One check of one target: performCheck\<close>

text \<open>
  The line numbers of this section, of the alert dispatcher and of the probe's request
  are those of \<open>worker/src/cert_logic.js\<close>.
\<close>

text \<open>
  What the probe's \<open>fetch\<close> can do: throw (with the error's \<open>message\<close>, which may be
  missing), or answer with a status code and a body; reading the body with
  \<open>response.text()\<close> can throw as well.
\<close>

datatype body_read = BodyText string | BodyThrows "string option"

datatype fetch_outcome = FetchThrows "string option" | Response int body_read

text \<open>\<open>response.ok\<close>: the status is in the range 200 to 299.\<close>

definition ok :: "int \<Rightarrow> bool" where
  "ok st = (200 \<le> st \<and> st \<le> 299)"

text \<open>The readings of the clock that one run of performCheck takes.\<close>

record clock =
  startTime :: int
  infoTime :: int
  isoInfo :: string
  endTime :: int
  isoEnd :: string

text \<open>The \<open>catch\<close> block of the probe (lines 253 to 265): the reason for a thrown request.\<close>

definition classifyError :: "string option \<Rightarrow> string" where
  "classifyError msg =
     (let errorMsg = orStr msg ''''
      in if includes_str errorMsg ''handshake'' \<or> includes_str errorMsg ''certificate''
            \<or> includes_str errorMsg ''SSL'' \<or> includes_str errorMsg ''TLS''
         then ''SSL Error: '' @ errorMsg
         else if includes_str errorMsg ''time'' \<or> includes_str errorMsg ''timeout''
         then ''Timeout''
         else orStr (Some errorMsg) ''Network Error'')"

record probe_result =
  p_status :: int
  p_isFail :: bool
  p_reason :: string
  p_schedule :: bool

text \<open>
  The probe (lines 211 to 265), given what \<open>fetch\<close> did with the probe's request.
  \<open>p_schedule\<close> says whether the metadata refresh (the update of \<open>check_info_status\<close>
  followed by updateDomainCertInfo) was started. The condition of the refresh is the
  source's, \<open>true || ...\<close> included; a keyword is looked for when it is neither null
  nor empty.
\<close>

definition runProbe :: "(string \<Rightarrow> int) \<Rightarrow> monitor \<Rightarrow> fetch_outcome \<Rightarrow> clock \<Rightarrow> probe_result" where
  "runProbe getTime monitor outcome clk =
     (case outcome of
        FetchThrows msg \<Rightarrow>
          \<lparr>p_status = 0, p_isFail = True, p_reason = classifyError msg, p_schedule = False\<rparr>
      | Response st body \<Rightarrow>
          if \<not> ok st then
            \<lparr>p_status = st, p_isFail = True, p_reason = ''HTTP '' @ showInt st, p_schedule = False\<rparr>
          else
            let lastInfoCheck = (case check_info_status monitor of
                                   None \<Rightarrow> 0
                                 | Some s \<Rightarrow> if s = [] then 0 else getTime s);
                sched = (True \<or> infoTime clk - lastInfoCheck > 86400000);
                success = \<lparr>p_status = st, p_isFail = False, p_reason = '''', p_schedule = sched\<rparr>
            in (case keyword monitor of
                  None \<Rightarrow> success
                | Some kw \<Rightarrow>
                    if kw = [] then success
                    else
                      (case body of
                         BodyThrows msg \<Rightarrow>
                           \<lparr>p_status = 0, p_isFail = True, p_reason = classifyError msg,
                            p_schedule = sched\<rparr>
                       | BodyText text \<Rightarrow>
                           if \<not> includes_str text kw then
                             \<lparr>p_status = st, p_isFail = True,
                              p_reason = ''Keyword '' @ [CHR 0x22] @ kw @ [CHR 0x22] @ '' not found'',
                              p_schedule = sched\<rparr>
                           else success)))"

text \<open>
  The state machine (lines 269 to 303): the new status, the new retry count and the
  messages handed to sendDingTalkAlert, in order.
\<close>

definition advance :: "monitor \<Rightarrow> bool \<Rightarrow> string \<Rightarrow> int \<Rightarrow> string \<times> int \<times> string list" where
  "advance monitor isFail reason latency =
     (if isFail then
        if status monitor = ''UP'' then (''RETRYING'', 1, [])
        else if status monitor = ''RETRYING'' then
          if retry_count monitor < 3 then (status monitor, retry_count monitor + 1, [])
          else (''DOWN'', retry_count monitor, [''Monitor is DOWN: '' @ reason])
        else if status monitor = ''DOWN'' then (status monitor, retry_count monitor, [])
        else (status monitor, retry_count monitor, [])
      else
        (''UP'', 0,
         if status monitor = ''DOWN''
         then [''Monitor Recovered! Latency: '' @ showInt latency @ ''ms'']
         else []))"

text \<open>The row inserted into table logs.\<close>

record log_entry =
  status_code :: int
  latency :: int
  is_fail :: bool
  reason :: string

record check_effects =
  row_after :: monitor
  logged :: log_entry
  alerts :: "string list"
  info_scheduled :: bool

text \<open>
  performCheck: the probe, the state machine, the two writes. \<open>row_after\<close> is the
  target's row after the writes of this run: \<open>check_info_status\<close> when the refresh was
  started, then \<open>last_check\<close>, \<open>status\<close> and \<open>retry_count\<close>. The statements of the
  store are taken to succeed.
\<close>

definition performCheck :: "(string \<Rightarrow> int) \<Rightarrow> monitor \<Rightarrow> fetch_outcome \<Rightarrow> clock \<Rightarrow> check_effects" where
  "performCheck getTime monitor outcome clk =
     (let p = runProbe getTime monitor outcome clk;
          lat = endTime clk - startTime clk;
          (newStatus, newRetryCount, sent) = advance monitor (p_isFail p) (p_reason p) lat
      in \<lparr>row_after =
            monitor\<lparr>check_info_status :=
                      (if p_schedule p then Some (isoInfo clk) else check_info_status monitor),
                    last_check := Some (isoEnd clk),
                    status := newStatus,
                    retry_count := newRetryCount\<rparr>,
          logged = \<lparr>status_code = p_status p, latency = lat, is_fail = p_isFail p,
                    reason = p_reason p\<rparr>,
          alerts = sent,
          info_scheduled = p_schedule p\<rparr>)"

text \<open>A sequence of checks of one target, each with its probe outcome and clock.\<close>

fun runChecks :: "(string \<Rightarrow> int) \<Rightarrow> monitor \<Rightarrow> (fetch_outcome \<times> clock) list \<Rightarrow> monitor" where
  "runChecks getTime monitor [] = monitor"
| "runChecks getTime monitor ((outcome, clk) # rest) =
     runChecks getTime (row_after (performCheck getTime monitor outcome clk)) rest"

section \<open>Requests\<close>

text \<open>
  A request is the URL and the options object handed to \<open>fetch\<close>; an object literal is
  the list of its keys with their values, in the order written.
\<close>

datatype jsv = JStr string | JNum int | JBool bool | JObj "(string \<times> jsv) list"

type_synonym request = "string \<times> (string \<times> jsv) list"

section \<open>The certificate and domain resolver: updateDomainCertInfo\<close>

text \<open>
  The line numbers of this section are those of the file that holds updateDomainCertInfo.
\<close>

text \<open>A record of the certificate-transparency lookup, and an event of the registration lookup.\<close>

record cert =
  not_after :: string
  common_name :: string

record rdap_event =
  eventAction :: string
  eventDate :: string

text \<open>
  What a lookup can do: \<open>fetch\<close> throws, the answer is not ok, the body is not JSON, or
  the body is the JSON the service documents (an array of records; an object whose
  \<open>events\<close> may be missing).
\<close>

datatype crt_response = CrtThrows | CrtNotOk int | CrtNotJson | CrtRecords "cert list"

datatype rdap_response = RdapThrows | RdapNotOk int | RdapNotJson | RdapData "rdap_event list option"

text \<open>
  The world around one run of the resolver: the URL parser (\<open>None\<close>: \<open>new URL\<close> throws),
  the two services by request URL, and whether the UPDATE statement throws.
\<close>

record services =
  hostnameOf :: "string \<Rightarrow> string option"
  crt :: "string \<Rightarrow> crt_response"
  rdap :: "string \<Rightarrow> rdap_response"
  updateThrows :: bool

definition crtRequest :: "string \<Rightarrow> request" where
  "crtRequest searchDomain =
     (''https://crt.sh/?q='' @ searchDomain @ ''&output=json'',
      [(''headers'', JObj [(''User-Agent'',
          JStr ''Mozilla/5.0 (Macintosh; Intel Mac OS X 10_15_7) AppleWebKit/537.36 (KHTML, like Gecko) Chrome/120.0.0.0 Safari/537.36'')])])"

definition rdapRequest :: "string \<Rightarrow> request" where
  "rdapRequest domain = (''https://rdap.org/domain/'' @ domain, [])"

text \<open>fetchCerts (lines 15 to 33): every failure is the empty array.\<close>

definition fetchCerts :: "services \<Rightarrow> string \<Rightarrow> cert list" where
  "fetchCerts w searchDomain =
     (case crt w (fst (crtRequest searchDomain)) of
        CrtThrows \<Rightarrow> []
      | CrtNotOk st \<Rightarrow> []
      | CrtNotJson \<Rightarrow> []
      | CrtRecords cs \<Rightarrow> cs)"

text \<open>\<open>s.split(c)\<close> and \<open>parts.join(sep)\<close>.\<close>

fun splitOn :: "char \<Rightarrow> string \<Rightarrow> string list" where
  "splitOn c [] = [[]]"
| "splitOn c (x # xs) =
     (if x = c then [] # splitOn c xs
      else (case splitOn c xs of [] \<Rightarrow> [[x]] | p # ps \<Rightarrow> (x # p) # ps))"

fun joinWith :: "string \<Rightarrow> string list \<Rightarrow> string" where
  "joinWith sep [] = []"
| "joinWith sep [p] = p"
| "joinWith sep (p # q # ps) = p @ sep @ joinWith sep (q # ps)"

text \<open>
  \<open>certs.sort(cmp)\<close>: a stable sort by the comparator (an element goes before the first
  one it does not compare greater than).
\<close>

fun insertBy :: "('a \<Rightarrow> 'a \<Rightarrow> int) \<Rightarrow> 'a \<Rightarrow> 'a list \<Rightarrow> 'a list" where
  "insertBy cmp x [] = [x]"
| "insertBy cmp x (y # ys) = (if cmp x y \<le> 0 then x # y # ys else y # insertBy cmp x ys)"

fun sortBy :: "('a \<Rightarrow> 'a \<Rightarrow> int) \<Rightarrow> 'a list \<Rightarrow> 'a list" where
  "sortBy cmp [] = []"
| "sortBy cmp (x # xs) = insertBy cmp x (sortBy cmp xs)"

text \<open>The comparator of line 54: later \<open>not_after\<close> first.\<close>

definition latestFirst :: "(string \<Rightarrow> int) \<Rightarrow> cert \<Rightarrow> cert \<Rightarrow> int" where
  "latestFirst getTime a b = getTime (not_after b) - getTime (not_after a)"

text \<open>Lines 36 to 51: the records gathered by the cascade.\<close>

definition rootDomainOf :: "string \<Rightarrow> string" where
  "rootDomainOf domain =
     (let parts = splitOn CHR ''.'' domain
      in joinWith ''.'' (drop (length parts - 2) parts))"

definition accumulateCerts :: "services \<Rightarrow> string \<Rightarrow> cert list" where
  "accumulateCerts w domain =
     (let certs = fetchCerts w domain
      in if certs = [] \<and> length (splitOn CHR ''.'' domain) > 2 then
           let rootDomain = rootDomainOf domain;
               rootCerts = fetchCerts w rootDomain;
               certs1 = (if length rootCerts > 0 then certs @ rootCerts else certs);
               wildCerts = fetchCerts w (''%.'' @ rootDomain);
               certs2 = (if length wildCerts > 0 then certs1 @ wildCerts else certs1)
           in certs2
         else certs)"

text \<open>Lines 53 to 57: the \<open>not_after\<close> of the first record after sorting, or null.\<close>

definition latestExpiry :: "(string \<Rightarrow> int) \<Rightarrow> cert list \<Rightarrow> string option" where
  "latestExpiry getTime certs =
     (if length certs > 0 then
        (case sortBy (latestFirst getTime) certs of
           [] \<Rightarrow> None
         | latestCert # _ \<Rightarrow> Some (not_after latestCert))
      else None)"

definition certExpiryOf :: "(string \<Rightarrow> int) \<Rightarrow> services \<Rightarrow> string \<Rightarrow> string option" where
  "certExpiryOf getTime w domain = latestExpiry getTime (accumulateCerts w domain)"

text \<open>Lines 63 to 76: the date of the first event whose action mentions expiration, or null.\<close>

definition domainExpiryOf :: "services \<Rightarrow> string \<Rightarrow> string option" where
  "domainExpiryOf w domain =
     (case rdap w (fst (rdapRequest domain)) of
        RdapThrows \<Rightarrow> None
      | RdapNotOk st \<Rightarrow> None
      | RdapNotJson \<Rightarrow> None
      | RdapData evs \<Rightarrow>
          (case find (\<lambda>e. includes_str (eventAction e) ''expiration'')
                  (case evs of None \<Rightarrow> [] | Some es \<Rightarrow> es) of
             None \<Rightarrow> None
           | Some expEvent \<Rightarrow> Some (eventDate expEvent)))"

text \<open>
  The store as the resolver sees it: the target's row, and the UPDATE statements run so
  far with their bound values (cert_expiry, domain_expiry, id).
\<close>

record store =
  row :: monitor
  statements :: "(string option \<times> string option \<times> int) list"

datatype js_error = InvalidURL | StoreError

text \<open>
  The body of the outer \<open>try\<close> (lines 5 to 84): the store afterwards, and the exception
  that left the block, if any.
\<close>

definition updateBody :: "(string \<Rightarrow> int) \<Rightarrow> services \<Rightarrow> monitor \<Rightarrow> store \<Rightarrow> store \<times> js_error option" where
  "updateBody getTime w monitor st =
     (case hostnameOf w (url monitor) of
        None \<Rightarrow> (st, Some InvalidURL)
      | Some domain \<Rightarrow>
          let certExpiry = certExpiryOf getTime w domain;
              domainExpiry = domainExpiryOf w domain
          in if truthy certExpiry \<or> truthy domainExpiry then
               let st1 = st\<lparr>statements := statements st @ [(certExpiry, domainExpiry, id_m monitor)]\<rparr>
               in if updateThrows w then (st1, Some StoreError)
                  else (st1\<lparr>row := (if id_m (row st) = id_m monitor
                                      then (row st)\<lparr>cert_expiry := certExpiry, domain_expiry := domainExpiry\<rparr>
                                      else row st)\<rparr>, None)
             else (st, None))"

text \<open>updateDomainCertInfo: the outer \<open>catch\<close> logs the exception and returns.\<close>

definition updateDomainCertInfo :: "(string \<Rightarrow> int) \<Rightarrow> services \<Rightarrow> monitor \<Rightarrow> store \<Rightarrow> store \<times> js_error option" where
  "updateDomainCertInfo getTime w monitor st =
     (case updateBody getTime w monitor st of
        (st1, None) \<Rightarrow> (st1, None)
      | (st1, Some e) \<Rightarrow> (st1, None))"

section \<open>The alert dispatcher: sendDingTalkAlert\<close>

text \<open>
  Strings are held as their UTF-8 bytes, one \<open>char\<close> per byte, so
  \<open>TextEncoder.encode\<close> reads the bytes off. \<open>crypto.subtle\<close> is the platform's; it
  is the parameter \<open>subtle\<close>: the name of the algorithm and of its hash, the bytes of the
  key and of the message, and the bytes of the signature it returns.
\<close>

definition encode :: "string \<Rightarrow> nat list" where
  "encode s = map of_char s"

definition b64char :: "nat \<Rightarrow> char" where
  "b64char n = ''ABCDEFGHIJKLMNOPQRSTUVWXYZabcdefghijklmnopqrstuvwxyz0123456789+/'' ! (n mod 64)"

text \<open>\<open>btoa(String.fromCharCode(...bytes))\<close>: Base64 of a byte sequence, padded with \<open>=\<close>.\<close>

fun btoa :: "nat list \<Rightarrow> string" where
  "btoa [] = []"
| "btoa [a] = [b64char (a div 4), b64char ((a mod 4) * 16), CHR ''='', CHR ''='']"
| "btoa [a, b] =
     [b64char (a div 4), b64char ((a mod 4) * 16 + b div 16), b64char ((b mod 16) * 4), CHR ''='']"
| "btoa (a # b # c # rest) =
     [b64char (a div 4), b64char ((a mod 4) * 16 + b div 16),
      b64char ((b mod 16) * 4 + c div 64), b64char (c mod 64)] @ btoa rest"

text \<open>
  \<open>encodeURIComponent\<close>: letters, digits and \<open>- _ . ! ~ * ' ( )\<close> stay, every other byte
  becomes \<open>%XX\<close> in upper-case hexadecimal.
\<close>

definition unreserved :: "char \<Rightarrow> bool" where
  "unreserved c =
     (c \<in> set (''ABCDEFGHIJKLMNOPQRSTUVWXYZabcdefghijklmnopqrstuvwxyz0123456789-_.!~*()'' @ [CHR 0x27]))"

definition hexDigit :: "nat \<Rightarrow> char" where
  "hexDigit n = ''0123456789ABCDEF'' ! (n mod 16)"

definition encodeURIComponent :: "string \<Rightarrow> string" where
  "encodeURIComponent s =
     concat (map (\<lambda>c. if unreserved c then [c]
                       else [CHR ''%'', hexDigit (of_char c div 16), hexDigit (of_char c)]) s)"

record env =
  DINGTALK_ACCESS_TOKEN :: "string option"
  DINGTALK_SECRET :: "string option"

text \<open>Lines 319 and 320: the configured credentials, or the ones written into the source.\<close>

definition accessTokenOf :: "env \<Rightarrow> string" where
  "accessTokenOf e =
     orStr (DINGTALK_ACCESS_TOKEN e) ''59f62a4b15f5fa9b7338ffaeacc5c199b537038ec79e57db681e48293cc6625d''"

definition secretOf :: "env \<Rightarrow> string" where
  "secretOf e =
     orStr (DINGTALK_SECRET e) ''SEC6243e3cced1f46b53340f22603f10fca92389f5891de46530a61ac30bc2da5c6''"

text \<open>
  The request sendDingTalkAlert posts (lines 327 to 357), or \<open>None\<close> when it returns
  before sending. \<open>timestamp\<close> is the reading of \<open>Date.now()\<close>, \<open>sendTime\<close> the text of
  \<open>new Date().toLocaleString()\<close>; the value of \<open>body\<close> is the payload that
  \<open>JSON.stringify\<close> serialises.
\<close>

type_synonym subtle_crypto = "string \<Rightarrow> string \<Rightarrow> nat list \<Rightarrow> nat list \<Rightarrow> nat list"

definition sendDingTalkAlert ::
  "subtle_crypto \<Rightarrow> env \<Rightarrow> monitor \<Rightarrow> string \<Rightarrow> int \<Rightarrow> string \<Rightarrow> request option" where
  "sendDingTalkAlert subtle e monitor message timestamp sendTime =
     (let accessToken = accessTokenOf e;
          secret = secretOf e
      in if accessToken = [] \<or> secret = [] then None
         else
           let stringToSign = showInt timestamp @ [CHR 0x0A] @ secret;
               key = encode secret;
               signature = subtle ''HMAC'' ''SHA-256'' key (encode stringToSign);
               signBase64 = btoa signature;
               signEncoded = encodeURIComponent signBase64;
               webhookUrl = ''https://oapi.dingtalk.com/robot/send?access_token='' @ accessToken
                            @ ''&timestamp='' @ showInt timestamp @ ''&sign='' @ signEncoded;
               payload = JObj [(''msgtype'', JStr ''text''),
                               (''text'', JObj [(''content'', JStr (
                                  ''[Uptime Monitor] '' @ [CHR 0xE8, CHR 0xAD, CHR 0xA6, CHR 0xE6, CHR 0x8A, CHR 0xA5]
                                  @ [CHR 0x0A, CHR 0x0A]
                                  @ [CHR 0xE7, CHR 0x9B, CHR 0x91, CHR 0xE6, CHR 0x8E, CHR 0xA7,
                                     CHR 0xE5, CHR 0xAF, CHR 0xB9, CHR 0xE8, CHR 0xB1, CHR 0xA1]
                                  @ '': '' @ name monitor @ [CHR 0x0A]
                                  @ ''URL: '' @ url monitor @ [CHR 0x0A]
                                  @ [CHR 0xE6, CHR 0x97, CHR 0xB6, CHR 0xE9, CHR 0x97, CHR 0xB4]
                                  @ '': '' @ sendTime @ [CHR 0x0A]
                                  @ [CHR 0xE4, CHR 0xBF, CHR 0xA1, CHR 0xE6, CHR 0x81, CHR 0xAF]
                                  @ '': '' @ message))])]
           in Some (webhookUrl,
                    [(''method'', JStr ''POST''),
                     (''headers'', JObj [(''Content-Type'', JStr ''application/json'')]),
                     (''body'', payload)]))"

text \<open>
  The signature as the signing protocol words it: HMAC-SHA256 of the timestamp, a line
  feed and the secret, keyed by the secret's UTF-8 bytes, Base64-encoded, then
  percent-encoded.
\<close>

definition documentedSign :: "subtle_crypto \<Rightarrow> string \<Rightarrow> string \<Rightarrow> string" where
  "documentedSign subtle secret timestampText =
     encodeURIComponent
       (btoa (subtle ''HMAC'' ''SHA-256'' (encode secret)
                (encode (timestampText @ [CHR 0x0A] @ secret))))"

section \<open>The requests the worker sends\<close>

text \<open>The probe's request (lines 216 to 224).\<close>

definition probeRequest :: "monitor \<Rightarrow> request" where
  "probeRequest monitor =
     (url monitor,
      [(''method'', JStr (orStr (request_method monitor) ''GET'')),
       (''headers'', JObj [(''User-Agent'', JStr ''Uptime-Monitor/1.0'')]),
       (''cf'', JObj [(''cacheTtl'', JNum 0), (''cacheEverything'', JBool False)])])"

text \<open>
  \<open>fetch\<close> bounds a request in time only through an abort signal among its options
  (key \<open>signal\<close>); a key \<open>timeout\<close> is looked for as well.
\<close>

definition hasTimeout :: "request \<Rightarrow> bool" where
  "hasTimeout r = (''signal'' \<in> set (map fst (snd r)) \<or> ''timeout'' \<in> set (map fst (snd r)))"

section \<open>Predicates of the statements\<close>

text \<open>The states a target moves through once it starts at UP with retry count 0.\<close>

definition debounced :: "monitor \<Rightarrow> bool" where
  "debounced m =
     (status m = ''UP'' \<and> retry_count m = 0
      \<or> status m = ''RETRYING'' \<and> 1 \<le> retry_count m \<and> retry_count m \<le> 3
      \<or> status m = ''DOWN'' \<and> retry_count m = 3)"

text \<open>Whether an error text uses the vocabulary of a TLS failure, or of a timeout.\<close>

definition mentionsSSL :: "string \<Rightarrow> bool" where
  "mentionsSSL e =
     (includes_str e ''handshake'' \<or> includes_str e ''certificate''
      \<or> includes_str e ''SSL'' \<or> includes_str e ''TLS'')"

definition mentionsTime :: "string \<Rightarrow> bool" where
  "mentionsTime e = (includes_str e ''time'' \<or> includes_str e ''timeout'')"

section \<open>Concrete targets and answers\<close>

text \<open>A date parser on the few dates used below (milliseconds since the epoch, UTC).\<close>

definition demoTime :: "string \<Rightarrow> int" where
  "demoTime s =
     (case map_of
        [(''2025-01-01T00:00:00.000Z'', 1735689600000),
         (''2025-01-01T00:00:01.000Z'', 1735689601000),
         (''2025-03-01T00:00:00'', 1740787200000),
         (''2025-06-01T00:00:00'', 1748736000000),
         (''2025-09-01T00:00:00'', 1756684800000)] s of
        None \<Rightarrow> 0
      | Some t \<Rightarrow> t)"

definition siteUp :: monitor where
  "siteUp =
     \<lparr>id_m = 1, name = ''site'', url = ''https://sub.example.com/health'', request_method = None,
      keyword = None, interval = Some 60, status = ''UP'', retry_count = 0,
      last_check = Some ''2025-01-01T00:00:00.000Z'',
      check_info_status = Some ''2025-01-01T00:00:00.000Z'',
      cert_expiry = Some ''2025-03-01T00:00:00'', domain_expiry = Some ''2025-09-01T00:00:00''\<rparr>"

definition tick :: clock where
  "tick =
     \<lparr>startTime = 1735689601000, infoTime = 1735689601020,
      isoInfo = ''2025-01-01T00:00:01.020Z'', endTime = 1735689601042,
      isoEnd = ''2025-01-01T00:00:01.042Z''\<rparr>"

definition answerOk :: fetch_outcome where
  "answerOk = Response 200 (BodyText ''all good'')"

definition answer500 :: fetch_outcome where
  "answer500 = Response 500 (BodyText ''oops, broken'')"

definition siteKeyword :: monitor where
  "siteKeyword = siteUp\<lparr>keyword := Some ''healthy''\<rparr>"

text \<open>
  A certificate log that knows nothing of \<open>sub.example.com\<close> itself, two certificates of
  \<open>example.com\<close> and one wildcard certificate; the registration lookup answers 404.
\<close>

definition rootCertA :: cert where
  "rootCertA = \<lparr>not_after = ''2025-03-01T00:00:00'', common_name = ''example.com''\<rparr>"

definition rootCertB :: cert where
  "rootCertB = \<lparr>not_after = ''2025-06-01T00:00:00'', common_name = ''example.com''\<rparr>"

definition wildCert :: cert where
  "wildCert = \<lparr>not_after = ''2025-09-01T00:00:00'', common_name = ''*.example.com''\<rparr>"

definition parseHost :: "string \<Rightarrow> string option" where
  "parseHost u = (if u = ''https://sub.example.com/health'' then Some ''sub.example.com'' else None)"

definition certsOnly :: services where
  "certsOnly =
     \<lparr>hostnameOf = parseHost,
      crt = (\<lambda>q. if q = ''https://crt.sh/?q=sub.example.com&output=json'' then CrtRecords []
                 else if q = ''https://crt.sh/?q=example.com&output=json''
                   then CrtRecords [rootCertA, rootCertB]
                 else if q = ''https://crt.sh/?q=%.example.com&output=json''
                   then CrtRecords [wildCert]
                 else CrtNotOk 404),
      rdap = (\<lambda>q. RdapNotOk 404),
      updateThrows = False\<rparr>"

text \<open>
  A world where every certificate query throws and the registration lookup knows the
  expiration; a world where nothing is found (the certificate log answers with a body
  that is not JSON, the registration lookup throws); and the store holding the target.
\<close>

definition domainOnly :: services where
  "domainOnly =
     \<lparr>hostnameOf = parseHost,
      crt = (\<lambda>q. CrtThrows),
      rdap = (\<lambda>q. if q = ''https://rdap.org/domain/sub.example.com''
                  then RdapData (Some [\<lparr>eventAction = ''registration'', eventDate = ''2015-02-01T00:00:00Z''\<rparr>,
                                       \<lparr>eventAction = ''expiration'', eventDate = ''2026-02-01T00:00:00Z''\<rparr>])
                  else RdapNotOk 404),
      updateThrows = False\<rparr>"

definition nothingFound :: services where
  "nothingFound =
     \<lparr>hostnameOf = parseHost, crt = (\<lambda>q. CrtNotJson), rdap = (\<lambda>q. RdapThrows),
      updateThrows = False\<rparr>"

definition store0 :: store where
  "store0 = \<lparr>row = siteUp, statements = []\<rparr>"

text \<open>A stand-in signature function (three fixed bytes) and an environment with credentials.\<close>

definition fixedBytes :: subtle_crypto where
  "fixedBytes algorithm hash key msg = [251, 255, 190]"

definition robotEnv :: env where
  "robotEnv = \<lparr>DINGTALK_ACCESS_TOKEN = Some ''tok123'', DINGTALK_SECRET = Some ''SECabc''\<rparr>"

section \<open>Facts about the helpers\<close>

lemma showNat_small: "n < 10 \<Longrightarrow> showNat n = [digit n]"
  by (simp add: showNat.simps)

lemma showNat_large: "\<not> n < 10 \<Longrightarrow> showNat n = showNat (n div 10) @ [digit n]"
  by (subst showNat.simps) simp

section \<open>Due-ness\<close>

text \<open>
  Claim C6, as the code has it. A target whose status is RETRYING is due whatever the
  time. Any other target (UP and DOWN among them) with a stored \<open>last_check\<close> and a
  nonzero \<open>interval\<close> is due exactly when \<open>now - last_check \<ge> interval * 1000\<close>; an
  interval that is missing or 0 counts as 300 seconds, and a missing \<open>last_check\<close>
  counts as time 0.
\<close>

theorem isTimeToCheck_rule:
  "(status m = ''RETRYING'' \<longrightarrow> isTimeToCheck getTime m now) \<and>
   (status m \<noteq> ''RETRYING'' \<and> last_check m = Some s \<and> s \<noteq> [] \<and> interval m = Some n \<and> n \<noteq> 0 \<longrightarrow>
      isTimeToCheck getTime m now = (now - getTime s \<ge> n * 1000)) \<and>
   (status m \<noteq> ''RETRYING'' \<and> last_check m = Some s \<and> s \<noteq> [] \<and>
      (interval m = None \<or> interval m = Some 0) \<longrightarrow>
      isTimeToCheck getTime m now = (now - getTime s \<ge> 300 * 1000)) \<and>
   (status m \<noteq> ''RETRYING'' \<and> (last_check m = None \<or> last_check m = Some []) \<longrightarrow>
      isTimeToCheck getTime m now = (now - 0 \<ge> orInt (interval m) 300 * 1000))"
  by (auto simp: isTimeToCheck_def orInt_def Let_def)

theorem isTimeToCheck_rule_witness:
  "isTimeToCheck demoTime (siteUp\<lparr>status := ''RETRYING''\<rparr>) 1735689600001 \<and>
   isTimeToCheck demoTime siteUp 1735689660000 \<and>
   \<not> isTimeToCheck demoTime siteUp 1735689659999 \<and>
   isTimeToCheck demoTime (siteUp\<lparr>status := ''DOWN'', interval := None\<rparr>) 1735689900000 \<and>
   \<not> isTimeToCheck demoTime (siteUp\<lparr>status := ''DOWN'', interval := None\<rparr>) 1735689899999 \<and>
   isTimeToCheck demoTime (siteUp\<lparr>last_check := None\<rparr>) 60000"
proof -
  have a: "isTimeToCheck demoTime (siteUp\<lparr>status := ''RETRYING''\<rparr>) 1735689600001"
    using isTimeToCheck_rule [of "siteUp\<lparr>status := ''RETRYING''\<rparr>" demoTime 1735689600001]
    by (simp add: siteUp_def)
  have b: "isTimeToCheck demoTime siteUp 1735689660000 \<and> \<not> isTimeToCheck demoTime siteUp 1735689659999"
    using isTimeToCheck_rule [of siteUp demoTime 1735689660000 "''2025-01-01T00:00:00.000Z''" 60]
      isTimeToCheck_rule [of siteUp demoTime 1735689659999 "''2025-01-01T00:00:00.000Z''" 60]
    by (simp add: siteUp_def demoTime_def)
  have c: "isTimeToCheck demoTime (siteUp\<lparr>status := ''DOWN'', interval := None\<rparr>) 1735689900000
           \<and> \<not> isTimeToCheck demoTime (siteUp\<lparr>status := ''DOWN'', interval := None\<rparr>) 1735689899999"
    using isTimeToCheck_rule [of "siteUp\<lparr>status := ''DOWN'', interval := None\<rparr>" demoTime
        1735689900000 "''2025-01-01T00:00:00.000Z''"]
      isTimeToCheck_rule [of "siteUp\<lparr>status := ''DOWN'', interval := None\<rparr>" demoTime
        1735689899999 "''2025-01-01T00:00:00.000Z''"]
    by (simp add: siteUp_def demoTime_def)
  have d: "isTimeToCheck demoTime (siteUp\<lparr>last_check := None\<rparr>) 60000"
    using isTimeToCheck_rule [of "siteUp\<lparr>last_check := None\<rparr>" demoTime 60000]
    by (simp add: siteUp_def orInt_def)
  from a b c d show ?thesis by blast
qed

text \<open>
  Where the claim as written fails: a target in UP whose interval is 0, one second after
  its last check. \<open>now - last_check \<ge> 0 * 1000\<close> holds, yet the target is not due,
  since an interval of 0 is read as 300 seconds.
\<close>

theorem isTimeToCheck_zero_interval_counterexample:
  "status (siteUp\<lparr>interval := Some 0\<rparr>) = ''UP'' \<and>
   last_check (siteUp\<lparr>interval := Some 0\<rparr>) = Some ''2025-01-01T00:00:00.000Z'' \<and>
   (1735689601000 - demoTime ''2025-01-01T00:00:00.000Z'' \<ge> 0 * 1000) \<and>
   isTimeToCheck demoTime (siteUp\<lparr>interval := Some 0\<rparr>) 1735689601000 = False"
  by (simp add: siteUp_def demoTime_def isTimeToCheck_def orInt_def)

section \<open>The probe, case by case\<close>

lemma runProbe_throws:
  "runProbe getTime m (FetchThrows msg) clk
   = \<lparr>p_status = 0, p_isFail = True, p_reason = classifyError msg, p_schedule = False\<rparr>"
  by (simp add: runProbe_def)

lemma runProbe_not_ok:
  "\<not> ok st \<Longrightarrow> runProbe getTime m (Response st body) clk
   = \<lparr>p_status = st, p_isFail = True, p_reason = ''HTTP '' @ showInt st, p_schedule = False\<rparr>"
  by (simp add: runProbe_def)

lemma runProbe_no_keyword:
  "ok st \<Longrightarrow> \<not> truthy (keyword m) \<Longrightarrow> runProbe getTime m (Response st body) clk
   = \<lparr>p_status = st, p_isFail = False, p_reason = [], p_schedule = True\<rparr>"
  by (simp add: runProbe_def truthy_def Let_def split: option.splits)

lemma runProbe_body_throws:
  "ok st \<Longrightarrow> truthy (keyword m) \<Longrightarrow> runProbe getTime m (Response st (BodyThrows msg)) clk
   = \<lparr>p_status = 0, p_isFail = True, p_reason = classifyError msg, p_schedule = True\<rparr>"
  by (simp add: runProbe_def truthy_def Let_def split: option.splits)

lemma runProbe_keyword:
  "ok st \<Longrightarrow> keyword m = Some kw \<Longrightarrow> kw \<noteq> [] \<Longrightarrow>
   runProbe getTime m (Response st (BodyText text)) clk
   = (if includes_str text kw
      then \<lparr>p_status = st, p_isFail = False, p_reason = [], p_schedule = True\<rparr>
      else \<lparr>p_status = st, p_isFail = True,
            p_reason = ''Keyword '' @ [CHR 0x22] @ kw @ [CHR 0x22] @ '' not found'',
            p_schedule = True\<rparr>)"
  by (simp add: runProbe_def Let_def)

section \<open>The state machine of performCheck\<close>

lemma performCheck_advance:
  "advance m (is_fail (logged (performCheck getTime m outcome clk)))
      (reason (logged (performCheck getTime m outcome clk)))
      (latency (logged (performCheck getTime m outcome clk)))
   = (status (row_after (performCheck getTime m outcome clk)),
      retry_count (row_after (performCheck getTime m outcome clk)),
      alerts (performCheck getTime m outcome clk))"
  by (simp add: performCheck_def Let_def split: prod.splits)

text \<open>
  Claim C1. performCheck follows the transition table, whatever the target and the probe
  outcome: UP and success gives UP, retry count 0, no alert; UP and failure gives
  RETRYING, retry count 1, no alert; RETRYING and success gives UP, 0, no alert; RETRYING
  and failure with retry count below 3 gives RETRYING with the count raised by 1, no
  alert; RETRYING and failure with retry count 3 gives DOWN and exactly one alert, the
  DOWN message with the failure reason; DOWN and failure gives DOWN with the count
  unchanged and no alert; DOWN and success gives UP, 0 and exactly one alert, the
  recovery message with the latency.
\<close>

theorem performCheck_transition_table:
  fixes m :: monitor and getTime :: "string \<Rightarrow> int" and outcome :: fetch_outcome and clk :: clock
  defines "r \<equiv> performCheck getTime m outcome clk"
  shows
  "(status m = ''UP'' \<and> \<not> is_fail (logged r) \<longrightarrow>
      status (row_after r) = ''UP'' \<and> retry_count (row_after r) = 0 \<and> alerts r = []) \<and>
   (status m = ''UP'' \<and> is_fail (logged r) \<longrightarrow>
      status (row_after r) = ''RETRYING'' \<and> retry_count (row_after r) = 1 \<and> alerts r = []) \<and>
   (status m = ''RETRYING'' \<and> \<not> is_fail (logged r) \<longrightarrow>
      status (row_after r) = ''UP'' \<and> retry_count (row_after r) = 0 \<and> alerts r = []) \<and>
   (status m = ''RETRYING'' \<and> is_fail (logged r) \<and> retry_count m < 3 \<longrightarrow>
      status (row_after r) = ''RETRYING'' \<and> retry_count (row_after r) = retry_count m + 1
      \<and> alerts r = []) \<and>
   (status m = ''RETRYING'' \<and> is_fail (logged r) \<and> retry_count m = 3 \<longrightarrow>
      status (row_after r) = ''DOWN'' \<and> retry_count (row_after r) = 3
      \<and> alerts r = [''Monitor is DOWN: '' @ reason (logged r)]) \<and>
   (status m = ''DOWN'' \<and> is_fail (logged r) \<longrightarrow>
      status (row_after r) = ''DOWN'' \<and> retry_count (row_after r) = retry_count m
      \<and> alerts r = []) \<and>
   (status m = ''DOWN'' \<and> \<not> is_fail (logged r) \<longrightarrow>
      status (row_after r) = ''UP'' \<and> retry_count (row_after r) = 0
      \<and> alerts r = [''Monitor Recovered! Latency: '' @ showInt (latency (logged r)) @ ''ms''])"
proof -
  have e: "(status (row_after r), retry_count (row_after r), alerts r)
           = advance m (is_fail (logged r)) (reason (logged r)) (latency (logged r))"
    unfolding r_def by (rule performCheck_advance [symmetric])
  have s: "status (row_after r)
           = fst (advance m (is_fail (logged r)) (reason (logged r)) (latency (logged r)))"
    and c: "retry_count (row_after r)
           = fst (snd (advance m (is_fail (logged r)) (reason (logged r)) (latency (logged r))))"
    and a: "alerts r
           = snd (snd (advance m (is_fail (logged r)) (reason (logged r)) (latency (logged r))))"
    by (simp_all add: e [symmetric])
  show ?thesis
    unfolding s c a by (simp add: advance_def)
qed

lemma answerOk_succeeds:
  "keyword m = None \<Longrightarrow> is_fail (logged (performCheck getTime m answerOk clk)) = False"
  by (simp add: performCheck_def runProbe_no_keyword answerOk_def ok_def truthy_def Let_def
      split: prod.splits)

lemma answer500_fails:
  "is_fail (logged (performCheck getTime m answer500 clk)) = True"
  by (simp add: performCheck_def runProbe_not_ok answer500_def ok_def Let_def split: prod.splits)

lemma showInt_500: "showInt 500 = ''500''"
  by (simp add: showInt_def showNat_large showNat_small digit_def)

lemma showInt_42: "showInt 42 = ''42''"
  by (simp add: showInt_def showNat_large showNat_small digit_def)

lemma answer500_reason:
  "reason (logged (performCheck getTime m answer500 clk)) = ''HTTP 500''"
  by (simp add: performCheck_def runProbe_not_ok answer500_def ok_def Let_def showInt_500
      split: prod.splits)

lemma tick_latency:
  "latency (logged (performCheck getTime m outcome tick)) = 42"
  by (simp add: performCheck_def Let_def tick_def split: prod.splits)

theorem performCheck_transition_table_witness:
  "(status (row_after (performCheck demoTime siteUp answerOk tick)) = ''UP''
      \<and> retry_count (row_after (performCheck demoTime siteUp answerOk tick)) = 0
      \<and> alerts (performCheck demoTime siteUp answerOk tick) = []) \<and>
   (status (row_after (performCheck demoTime siteUp answer500 tick)) = ''RETRYING''
      \<and> retry_count (row_after (performCheck demoTime siteUp answer500 tick)) = 1
      \<and> alerts (performCheck demoTime siteUp answer500 tick) = []) \<and>
   (status (row_after (performCheck demoTime
        (siteUp\<lparr>status := ''RETRYING'', retry_count := 2\<rparr>) answerOk tick)) = ''UP''
      \<and> alerts (performCheck demoTime
        (siteUp\<lparr>status := ''RETRYING'', retry_count := 2\<rparr>) answerOk tick) = []) \<and>
   (status (row_after (performCheck demoTime
        (siteUp\<lparr>status := ''RETRYING'', retry_count := 2\<rparr>) answer500 tick)) = ''RETRYING''
      \<and> retry_count (row_after (performCheck demoTime
        (siteUp\<lparr>status := ''RETRYING'', retry_count := 2\<rparr>) answer500 tick)) = 3) \<and>
   (status (row_after (performCheck demoTime
        (siteUp\<lparr>status := ''RETRYING'', retry_count := 3\<rparr>) answer500 tick)) = ''DOWN''
      \<and> alerts (performCheck demoTime
        (siteUp\<lparr>status := ''RETRYING'', retry_count := 3\<rparr>) answer500 tick)
          = [''Monitor is DOWN: HTTP 500'']) \<and>
   (status (row_after (performCheck demoTime
        (siteUp\<lparr>status := ''DOWN'', retry_count := 3\<rparr>) answer500 tick)) = ''DOWN''
      \<and> retry_count (row_after (performCheck demoTime
        (siteUp\<lparr>status := ''DOWN'', retry_count := 3\<rparr>) answer500 tick)) = 3
      \<and> alerts (performCheck demoTime
        (siteUp\<lparr>status := ''DOWN'', retry_count := 3\<rparr>) answer500 tick) = []) \<and>
   (status (row_after (performCheck demoTime
        (siteUp\<lparr>status := ''DOWN'', retry_count := 3\<rparr>) answerOk tick)) = ''UP''
      \<and> retry_count (row_after (performCheck demoTime
        (siteUp\<lparr>status := ''DOWN'', retry_count := 3\<rparr>) answerOk tick)) = 0
      \<and> alerts (performCheck demoTime
        (siteUp\<lparr>status := ''DOWN'', retry_count := 3\<rparr>) answerOk tick)
          = [''Monitor Recovered! Latency: 42ms''])"
proof -
  have k: "keyword siteUp = None" "status siteUp = ''UP''" "retry_count siteUp = 0"
    by (simp_all add: siteUp_def)
  have c1: "status (row_after (performCheck demoTime siteUp answerOk tick)) = ''UP''
      \<and> retry_count (row_after (performCheck demoTime siteUp answerOk tick)) = 0
      \<and> alerts (performCheck demoTime siteUp answerOk tick) = []"
    using performCheck_transition_table [of siteUp demoTime answerOk tick] by (simp add: k answerOk_succeeds)
  have c2: "status (row_after (performCheck demoTime siteUp answer500 tick)) = ''RETRYING''
      \<and> retry_count (row_after (performCheck demoTime siteUp answer500 tick)) = 1
      \<and> alerts (performCheck demoTime siteUp answer500 tick) = []"
    using performCheck_transition_table [of siteUp demoTime answer500 tick] by (simp add: k answer500_fails)
  have c3: "status (row_after (performCheck demoTime
        (siteUp\<lparr>status := ''RETRYING'', retry_count := 2\<rparr>) answerOk tick)) = ''UP''
      \<and> alerts (performCheck demoTime
        (siteUp\<lparr>status := ''RETRYING'', retry_count := 2\<rparr>) answerOk tick) = []"
    using performCheck_transition_table [of "siteUp\<lparr>status := ''RETRYING'', retry_count := 2\<rparr>" demoTime answerOk tick]
    by (simp add: k answerOk_succeeds)
  have c4: "status (row_after (performCheck demoTime
        (siteUp\<lparr>status := ''RETRYING'', retry_count := 2\<rparr>) answer500 tick)) = ''RETRYING''
      \<and> retry_count (row_after (performCheck demoTime
        (siteUp\<lparr>status := ''RETRYING'', retry_count := 2\<rparr>) answer500 tick)) = 3"
    using performCheck_transition_table [of "siteUp\<lparr>status := ''RETRYING'', retry_count := 2\<rparr>" demoTime answer500 tick]
    by (simp add: answer500_fails)
  have c5: "status (row_after (performCheck demoTime
        (siteUp\<lparr>status := ''RETRYING'', retry_count := 3\<rparr>) answer500 tick)) = ''DOWN''
      \<and> alerts (performCheck demoTime
        (siteUp\<lparr>status := ''RETRYING'', retry_count := 3\<rparr>) answer500 tick)
          = [''Monitor is DOWN: HTTP 500'']"
    using performCheck_transition_table [of "siteUp\<lparr>status := ''RETRYING'', retry_count := 3\<rparr>" demoTime answer500 tick]
    by (simp add: answer500_fails answer500_reason)
  have c6: "status (row_after (performCheck demoTime
        (siteUp\<lparr>status := ''DOWN'', retry_count := 3\<rparr>) answer500 tick)) = ''DOWN''
      \<and> retry_count (row_after (performCheck demoTime
        (siteUp\<lparr>status := ''DOWN'', retry_count := 3\<rparr>) answer500 tick)) = 3
      \<and> alerts (performCheck demoTime
        (siteUp\<lparr>status := ''DOWN'', retry_count := 3\<rparr>) answer500 tick) = []"
    using performCheck_transition_table [of "siteUp\<lparr>status := ''DOWN'', retry_count := 3\<rparr>" demoTime answer500 tick]
    by (simp add: answer500_fails)
  have c7: "status (row_after (performCheck demoTime
        (siteUp\<lparr>status := ''DOWN'', retry_count := 3\<rparr>) answerOk tick)) = ''UP''
      \<and> retry_count (row_after (performCheck demoTime
        (siteUp\<lparr>status := ''DOWN'', retry_count := 3\<rparr>) answerOk tick)) = 0
      \<and> alerts (performCheck demoTime
        (siteUp\<lparr>status := ''DOWN'', retry_count := 3\<rparr>) answerOk tick)
          = [''Monitor Recovered! Latency: 42ms'']"
    using performCheck_transition_table [of "siteUp\<lparr>status := ''DOWN'', retry_count := 3\<rparr>" demoTime answerOk tick]
    by (simp add: k answerOk_succeeds tick_latency showInt_42)
  from c1 c2 c3 c4 c5 c6 c7 show ?thesis by blast
qed

section \<open>The retry count along a run\<close>

lemma performCheck_debounced:
  assumes "debounced m"
  shows "debounced (row_after (performCheck getTime m outcome clk))"
proof -
  let ?r = "performCheck getTime m outcome clk"
  have e: "(status (row_after ?r), retry_count (row_after ?r), alerts ?r)
           = advance m (is_fail (logged ?r)) (reason (logged ?r)) (latency (logged ?r))"
    by (rule performCheck_advance [symmetric])
  have s: "status (row_after ?r)
           = fst (advance m (is_fail (logged ?r)) (reason (logged ?r)) (latency (logged ?r)))"
    and c: "retry_count (row_after ?r)
           = fst (snd (advance m (is_fail (logged ?r)) (reason (logged ?r)) (latency (logged ?r))))"
    by (simp_all add: e [symmetric])
  show ?thesis
    using assms unfolding debounced_def s c by (auto simp: advance_def)
qed

lemma runChecks_debounced:
  "debounced m \<Longrightarrow> debounced (runChecks getTime m steps)"
proof (induction steps arbitrary: m)
  case Nil
  then show ?case by simp
next
  case (Cons step steps)
  obtain outcome clk where step: "step = (outcome, clk)" by (cases step)
  from Cons.prems have "debounced (row_after (performCheck getTime m outcome clk))"
    by (rule performCheck_debounced)
  then show ?case
    unfolding step by (simp add: Cons.IH)
qed

text \<open>
  Claim C3, as the code has it. Along every run of checks that starts from a target in UP
  with retry count 0, the status stays one of UP, RETRYING and DOWN; the retry count is 0
  whenever the status is UP, between 1 and 3 whenever it is RETRYING, and 3 whenever it is
  DOWN (the transition into DOWN keeps the count, and DOWN keeps it until recovery).
\<close>

theorem retry_count_invariant:
  assumes "status m = ''UP''" and "retry_count m = 0"
  shows "(status (runChecks getTime m steps) = ''UP'' \<longrightarrow> retry_count (runChecks getTime m steps) = 0) \<and>
         (status (runChecks getTime m steps) = ''RETRYING'' \<longrightarrow>
            1 \<le> retry_count (runChecks getTime m steps) \<and> retry_count (runChecks getTime m steps) \<le> 3) \<and>
         (status (runChecks getTime m steps) = ''DOWN'' \<longrightarrow> retry_count (runChecks getTime m steps) = 3) \<and>
         status (runChecks getTime m steps) \<in> {''UP'', ''RETRYING'', ''DOWN''}"
proof -
  from assms have "debounced m" by (simp add: debounced_def)
  then have "debounced (runChecks getTime m steps)" by (rule runChecks_debounced)
  then show ?thesis by (auto simp: debounced_def)
qed

lemma answer500_step:
  "row_after (performCheck getTime m answer500 clk)
   = m\<lparr>last_check := Some (isoEnd clk),
       status := fst (advance m True ''HTTP 500'' (endTime clk - startTime clk)),
       retry_count := fst (snd (advance m True ''HTTP 500'' (endTime clk - startTime clk)))\<rparr>"
  by (simp add: performCheck_def runProbe_not_ok answer500_def ok_def Let_def showInt_500
      split: prod.splits)

lemma four_failures:
  "status (runChecks demoTime siteUp
      [(answer500, tick), (answer500, tick), (answer500, tick), (answer500, tick)]) = ''DOWN'' \<and>
   retry_count (runChecks demoTime siteUp
      [(answer500, tick), (answer500, tick), (answer500, tick), (answer500, tick)]) = 3"
  by (simp add: answer500_step advance_def siteUp_def)

theorem retry_count_invariant_witness:
  "status siteUp = ''UP'' \<and> retry_count siteUp = 0 \<and>
   status (runChecks demoTime siteUp [(answer500, tick), (answer500, tick)]) = ''RETRYING'' \<and>
   1 \<le> retry_count (runChecks demoTime siteUp [(answer500, tick), (answer500, tick)]) \<and>
   retry_count (runChecks demoTime siteUp [(answer500, tick), (answer500, tick)]) \<le> 3"
proof -
  have h: "status siteUp = ''UP''" "retry_count siteUp = 0"
    by (simp_all add: siteUp_def)
  have s: "status (runChecks demoTime siteUp [(answer500, tick), (answer500, tick)]) = ''RETRYING''"
    by (simp add: answer500_step advance_def siteUp_def)
  from retry_count_invariant [OF h, of demoTime "[(answer500, tick), (answer500, tick)]"] s h
  show ?thesis by simp
qed

text \<open>
  Where the claim as written fails: four failed probes in a row take a target from UP
  with retry count 0 to DOWN, and there the retry count is 3, not 0.
\<close>

theorem retry_count_down_counterexample:
  "status siteUp = ''UP'' \<and> retry_count siteUp = 0 \<and>
   status (runChecks demoTime siteUp
      [(answer500, tick), (answer500, tick), (answer500, tick), (answer500, tick)]) = ''DOWN'' \<and>
   retry_count (runChecks demoTime siteUp
      [(answer500, tick), (answer500, tick), (answer500, tick), (answer500, tick)]) \<noteq> 0"
  using four_failures by (simp add: siteUp_def)

section \<open>The classification of a probe\<close>

lemma logged_runProbe:
  "logged (performCheck getTime m outcome clk)
   = \<lparr>status_code = p_status (runProbe getTime m outcome clk),
      latency = endTime clk - startTime clk,
      is_fail = p_isFail (runProbe getTime m outcome clk),
      reason = p_reason (runProbe getTime m outcome clk)\<rparr>"
  by (simp add: performCheck_def Let_def split: prod.splits)

lemma classifyError_cases:
  "(mentionsSSL (orStr msg '''') \<longrightarrow> classifyError msg = ''SSL Error: '' @ orStr msg '''') \<and>
   (\<not> mentionsSSL (orStr msg '''') \<and> mentionsTime (orStr msg '''') \<longrightarrow>
      classifyError msg = ''Timeout'') \<and>
   (\<not> mentionsSSL (orStr msg '''') \<and> \<not> mentionsTime (orStr msg '''') \<and> orStr msg '''' \<noteq> [] \<longrightarrow>
      classifyError msg = orStr msg '''') \<and>
   (\<not> mentionsSSL (orStr msg '''') \<and> \<not> mentionsTime (orStr msg '''') \<and> orStr msg '''' = [] \<longrightarrow>
      classifyError msg = ''Network Error'')"
  by (simp add: classifyError_def mentionsSSL_def mentionsTime_def Let_def orStr_def)

text \<open>
  Claim C7. The check result that performCheck records is classified in this order. A
  response with a status outside 200 to 299 is a failure with that status code and reason
  \<open>HTTP <status>\<close>. A response inside the range whose body does not contain the
  configured keyword (looked at only when a keyword is configured) is a failure whose
  reason names the keyword. A request that throws (or a body that cannot be read for the
  keyword check) is a failure with status code 0; its reason is \<open>SSL Error: <message>\<close>
  when the message mentions handshake, certificate, SSL or TLS, else \<open>Timeout\<close> when it
  mentions time or timeout, else the message itself, or \<open>Network Error\<close> when there is
  none. Every other probe is a success with the response's status code and an empty
  reason. Every outcome, a thrown request included, yields a check result.
\<close>

theorem probe_classification:
  fixes m :: monitor and getTime :: "string \<Rightarrow> int" and outcome :: fetch_outcome and clk :: clock
  defines "c \<equiv> logged (performCheck getTime m outcome clk)"
  shows
  "(\<forall>st body. outcome = Response st body \<and> \<not> ok st \<longrightarrow>
      is_fail c \<and> status_code c = st \<and> reason c = ''HTTP '' @ showInt st) \<and>
   (\<forall>st text kw. outcome = Response st (BodyText text) \<and> ok st \<and> keyword m = Some kw \<and> kw \<noteq> []
        \<and> \<not> includes_str text kw \<longrightarrow>
      is_fail c \<and> status_code c = st
      \<and> reason c = ''Keyword '' @ [CHR 0x22] @ kw @ [CHR 0x22] @ '' not found'') \<and>
   (\<forall>msg. outcome = FetchThrows msg
        \<or> (\<exists>st. outcome = Response st (BodyThrows msg) \<and> ok st \<and> truthy (keyword m)) \<longrightarrow>
      is_fail c \<and> status_code c = 0 \<and>
      (mentionsSSL (orStr msg '''') \<longrightarrow> reason c = ''SSL Error: '' @ orStr msg '''') \<and>
      (\<not> mentionsSSL (orStr msg '''') \<and> mentionsTime (orStr msg '''') \<longrightarrow> reason c = ''Timeout'') \<and>
      (\<not> mentionsSSL (orStr msg '''') \<and> \<not> mentionsTime (orStr msg '''') \<and> orStr msg '''' \<noteq> [] \<longrightarrow>
         reason c = orStr msg '''') \<and>
      (\<not> mentionsSSL (orStr msg '''') \<and> \<not> mentionsTime (orStr msg '''') \<and> orStr msg '''' = [] \<longrightarrow>
         reason c = ''Network Error'')) \<and>
   (\<forall>st body. outcome = Response st body \<and> ok st \<and> \<not> truthy (keyword m) \<longrightarrow>
      \<not> is_fail c \<and> status_code c = st \<and> reason c = []) \<and>
   (\<forall>st text kw. outcome = Response st (BodyText text) \<and> ok st \<and> keyword m = Some kw
        \<and> kw \<noteq> [] \<and> includes_str text kw \<longrightarrow>
      \<not> is_fail c \<and> status_code c = st \<and> reason c = [])"
proof -
  have c: "c = \<lparr>status_code = p_status (runProbe getTime m outcome clk),
                latency = endTime clk - startTime clk,
                is_fail = p_isFail (runProbe getTime m outcome clk),
                reason = p_reason (runProbe getTime m outcome clk)\<rparr>"
    unfolding c_def by (rule logged_runProbe)
  have http: "\<forall>st body. outcome = Response st body \<and> \<not> ok st \<longrightarrow>
      is_fail c \<and> status_code c = st \<and> reason c = ''HTTP '' @ showInt st"
    by (simp add: c runProbe_not_ok)
  have kw: "\<forall>st text kw. outcome = Response st (BodyText text) \<and> ok st \<and> keyword m = Some kw \<and> kw \<noteq> []
        \<and> \<not> includes_str text kw \<longrightarrow>
      is_fail c \<and> status_code c = st
      \<and> reason c = ''Keyword '' @ [CHR 0x22] @ kw @ [CHR 0x22] @ '' not found''"
    by (simp add: c runProbe_keyword)
  have thrown: "\<forall>msg. outcome = FetchThrows msg
        \<or> (\<exists>st. outcome = Response st (BodyThrows msg) \<and> ok st \<and> truthy (keyword m)) \<longrightarrow>
      is_fail c \<and> status_code c = 0 \<and> reason c = classifyError msg"
    by (auto simp: c runProbe_throws runProbe_body_throws)
  have plain: "\<forall>st body. outcome = Response st body \<and> ok st \<and> \<not> truthy (keyword m) \<longrightarrow>
      \<not> is_fail c \<and> status_code c = st \<and> reason c = []"
    by (simp add: c runProbe_no_keyword)
  have found: "\<forall>st text kw. outcome = Response st (BodyText text) \<and> ok st \<and> keyword m = Some kw
        \<and> kw \<noteq> [] \<and> includes_str text kw \<longrightarrow>
      \<not> is_fail c \<and> status_code c = st \<and> reason c = []"
    by (simp add: c runProbe_keyword)
  from thrown have thrown':
    "\<forall>msg. outcome = FetchThrows msg
        \<or> (\<exists>st. outcome = Response st (BodyThrows msg) \<and> ok st \<and> truthy (keyword m)) \<longrightarrow>
      is_fail c \<and> status_code c = 0 \<and>
      (mentionsSSL (orStr msg '''') \<longrightarrow> reason c = ''SSL Error: '' @ orStr msg '''') \<and>
      (\<not> mentionsSSL (orStr msg '''') \<and> mentionsTime (orStr msg '''') \<longrightarrow> reason c = ''Timeout'') \<and>
      (\<not> mentionsSSL (orStr msg '''') \<and> \<not> mentionsTime (orStr msg '''') \<and> orStr msg '''' \<noteq> [] \<longrightarrow>
         reason c = orStr msg '''') \<and>
      (\<not> mentionsSSL (orStr msg '''') \<and> \<not> mentionsTime (orStr msg '''') \<and> orStr msg '''' = [] \<longrightarrow>
         reason c = ''Network Error'')"
    using classifyError_cases by metis
  from http kw thrown' plain found show ?thesis by blast
qed

theorem probe_classification_witness:
  "logged (performCheck demoTime siteUp answer500 tick)
     = \<lparr>status_code = 500, latency = 42, is_fail = True, reason = ''HTTP 500''\<rparr> \<and>
   logged (performCheck demoTime siteKeyword answerOk tick)
     = \<lparr>status_code = 200, latency = 42, is_fail = True,
        reason = ''Keyword '' @ [CHR 0x22] @ ''healthy'' @ [CHR 0x22] @ '' not found''\<rparr> \<and>
   logged (performCheck demoTime siteUp (FetchThrows (Some ''TLS handshake failed'')) tick)
     = \<lparr>status_code = 0, latency = 42, is_fail = True,
        reason = ''SSL Error: TLS handshake failed''\<rparr> \<and>
   logged (performCheck demoTime siteUp (FetchThrows (Some ''connection timed out'')) tick)
     = \<lparr>status_code = 0, latency = 42, is_fail = True, reason = ''Timeout''\<rparr> \<and>
   logged (performCheck demoTime siteUp (FetchThrows (Some ''ECONNREFUSED'')) tick)
     = \<lparr>status_code = 0, latency = 42, is_fail = True, reason = ''ECONNREFUSED''\<rparr> \<and>
   logged (performCheck demoTime siteUp (FetchThrows None) tick)
     = \<lparr>status_code = 0, latency = 42, is_fail = True, reason = ''Network Error''\<rparr> \<and>
   logged (performCheck demoTime siteUp answerOk tick)
     = \<lparr>status_code = 200, latency = 42, is_fail = False, reason = []\<rparr> \<and>
   logged (performCheck demoTime siteKeyword (Response 200 (BodyText ''service healthy'')) tick)
     = \<lparr>status_code = 200, latency = 42, is_fail = False, reason = []\<rparr>"
proof -
  have k: "keyword siteUp = None" "keyword siteKeyword = Some ''healthy''"
    by (simp_all add: siteUp_def siteKeyword_def)
  have eq: "\<And>e :: log_entry. e = \<lparr>status_code = status_code e, latency = latency e,
                                      is_fail = is_fail e, reason = reason e\<rparr>"
    by simp
  have a1: "logged (performCheck demoTime siteUp answer500 tick)
     = \<lparr>status_code = 500, latency = 42, is_fail = True, reason = ''HTTP 500''\<rparr>"
    using probe_classification [where m = siteUp and getTime = demoTime and outcome = answer500
        and clk = tick]
    by (subst eq) (simp add: answer500_def ok_def showInt_500 tick_latency)
  have a2: "logged (performCheck demoTime siteKeyword answerOk tick)
     = \<lparr>status_code = 200, latency = 42, is_fail = True,
        reason = ''Keyword '' @ [CHR 0x22] @ ''healthy'' @ [CHR 0x22] @ '' not found''\<rparr>"
    using probe_classification [where m = siteKeyword and getTime = demoTime and outcome = answerOk
        and clk = tick]
    by (subst eq) (simp add: answerOk_def ok_def k tick_latency)
  have a3: "logged (performCheck demoTime siteUp (FetchThrows (Some ''TLS handshake failed'')) tick)
     = \<lparr>status_code = 0, latency = 42, is_fail = True,
        reason = ''SSL Error: TLS handshake failed''\<rparr>"
    using probe_classification [where m = siteUp and getTime = demoTime
        and outcome = "FetchThrows (Some ''TLS handshake failed'')" and clk = tick]
    by (subst eq) (simp add: mentionsSSL_def orStr_def tick_latency)
  have a4: "logged (performCheck demoTime siteUp (FetchThrows (Some ''connection timed out'')) tick)
     = \<lparr>status_code = 0, latency = 42, is_fail = True, reason = ''Timeout''\<rparr>"
    using probe_classification [where m = siteUp and getTime = demoTime
        and outcome = "FetchThrows (Some ''connection timed out'')" and clk = tick]
    by (subst eq) (simp add: mentionsSSL_def mentionsTime_def orStr_def tick_latency)
  have a5: "logged (performCheck demoTime siteUp (FetchThrows (Some ''ECONNREFUSED'')) tick)
     = \<lparr>status_code = 0, latency = 42, is_fail = True, reason = ''ECONNREFUSED''\<rparr>"
    using probe_classification [where m = siteUp and getTime = demoTime
        and outcome = "FetchThrows (Some ''ECONNREFUSED'')" and clk = tick]
    by (subst eq) (simp add: mentionsSSL_def mentionsTime_def orStr_def tick_latency)
  have a6: "logged (performCheck demoTime siteUp (FetchThrows None) tick)
     = \<lparr>status_code = 0, latency = 42, is_fail = True, reason = ''Network Error''\<rparr>"
    using probe_classification [where m = siteUp and getTime = demoTime
        and outcome = "FetchThrows None" and clk = tick]
    by (subst eq) (simp add: mentionsSSL_def mentionsTime_def orStr_def tick_latency)
  have a7: "logged (performCheck demoTime siteUp answerOk tick)
     = \<lparr>status_code = 200, latency = 42, is_fail = False, reason = []\<rparr>"
    using probe_classification [where m = siteUp and getTime = demoTime and outcome = answerOk
        and clk = tick]
    by (subst eq) (simp add: answerOk_def ok_def k truthy_def tick_latency)
  have a8: "logged (performCheck demoTime siteKeyword (Response 200 (BodyText ''service healthy'')) tick)
     = \<lparr>status_code = 200, latency = 42, is_fail = False, reason = []\<rparr>"
    using probe_classification [where m = siteKeyword and getTime = demoTime
        and outcome = "Response 200 (BodyText ''service healthy'')" and clk = tick]
    by (subst eq) (simp add: ok_def k tick_latency)
  from a1 a2 a3 a4 a5 a6 a7 a8 show ?thesis by blast
qed

section \<open>The metadata refresh\<close>

lemma refresh_on_every_ok_response:
  "ok st \<Longrightarrow> info_scheduled (performCheck getTime m (Response st body) clk)"
  by (simp add: performCheck_def runProbe_def Let_def
      split: prod.splits body_read.splits option.splits)

text \<open>
  Claim C2 at a target whose metadata was refreshed one second before the check: the
  cooldown of 24 hours has not elapsed (1020 milliseconds have), the probe succeeds, and
  the refresh is started all the same, with \<open>check_info_status\<close> rewritten. The same
  happens on a response in the 200 range that fails the keyword check.
\<close>

theorem refresh_ignores_cooldown:
  "check_info_status siteUp = Some ''2025-01-01T00:00:00.000Z'' \<and>
   infoTime tick - demoTime ''2025-01-01T00:00:00.000Z'' = 1020 \<and>
   is_fail (logged (performCheck demoTime siteUp answerOk tick)) = False \<and>
   info_scheduled (performCheck demoTime siteUp answerOk tick) = True \<and>
   check_info_status (row_after (performCheck demoTime siteUp answerOk tick))
     = Some ''2025-01-01T00:00:01.020Z'' \<and>
   is_fail (logged (performCheck demoTime siteKeyword answerOk tick)) = True \<and>
   info_scheduled (performCheck demoTime siteKeyword answerOk tick) = True"
  by (simp add: performCheck_def runProbe_def answerOk_def ok_def Let_def
      siteUp_def siteKeyword_def tick_def demoTime_def split: prod.splits)

section \<open>The certificate cascade\<close>

lemma set_insertBy: "set (insertBy cmp x ys) = insert x (set ys)"
  by (induction ys) auto

lemma set_sortBy: "set (sortBy cmp xs) = set xs"
  by (induction xs) (simp_all add: set_insertBy)

lemma sortBy_empty: "sortBy cmp xs = [] \<longleftrightarrow> xs = []"
  using set_sortBy [of cmp xs] by (cases xs) auto

lemma insertBy_latest_first:
  "sorted_wrt (\<lambda>a b. getTime (not_after b) \<le> getTime (not_after a)) ys \<Longrightarrow>
   sorted_wrt (\<lambda>a b. getTime (not_after b) \<le> getTime (not_after a))
     (insertBy (latestFirst getTime) x ys)"
proof (induction ys)
  case Nil
  then show ?case by simp
next
  case (Cons y ys)
  show ?case
  proof (cases "latestFirst getTime x y \<le> 0")
    case True
    then have xy: "getTime (not_after y) \<le> getTime (not_after x)"
      by (simp add: latestFirst_def)
    from Cons.prems have "\<forall>z \<in> set ys. getTime (not_after z) \<le> getTime (not_after y)"
      by simp
    with xy have "\<forall>z \<in> set ys. getTime (not_after z) \<le> getTime (not_after x)"
      by fastforce
    with True xy Cons.prems show ?thesis by simp
  next
    case False
    then have yx: "getTime (not_after x) \<le> getTime (not_after y)"
      by (simp add: latestFirst_def)
    from Cons.prems have tl: "sorted_wrt (\<lambda>a b. getTime (not_after b) \<le> getTime (not_after a)) ys"
      and hd: "\<forall>z \<in> set ys. getTime (not_after z) \<le> getTime (not_after y)"
      by simp_all
    from False yx hd Cons.IH [OF tl] show ?thesis
      by (simp add: set_insertBy)
  qed
qed

lemma sortBy_latest_first:
  "sorted_wrt (\<lambda>a b. getTime (not_after b) \<le> getTime (not_after a))
     (sortBy (latestFirst getTime) xs)"
  by (induction xs) (simp_all add: insertBy_latest_first)

lemma latestExpiry_None: "latestExpiry getTime certs = None \<longleftrightarrow> certs = []"
  by (auto simp: latestExpiry_def sortBy_empty split: list.splits)

lemma latestExpiry_max:
  assumes "certs \<noteq> []"
  shows "\<exists>c \<in> set certs. latestExpiry getTime certs = Some (not_after c)
           \<and> (\<forall>c' \<in> set certs. getTime (not_after c') \<le> getTime (not_after c))"
proof -
  from assms obtain c rest where s: "sortBy (latestFirst getTime) certs = c # rest"
    by (cases "sortBy (latestFirst getTime) certs") (simp_all add: sortBy_empty)
  have "sorted_wrt (\<lambda>a b. getTime (not_after b) \<le> getTime (not_after a)) (c # rest)"
    using sortBy_latest_first [of getTime certs] by (simp add: s)
  then have "\<forall>z \<in> set (c # rest). getTime (not_after z) \<le> getTime (not_after c)"
    by simp
  moreover have "set (c # rest) = set certs"
    using set_sortBy [of "latestFirst getTime" certs] by (simp add: s)
  moreover from assms have "latestExpiry getTime certs = Some (not_after c)"
    by (simp add: latestExpiry_def s)
  ultimately show ?thesis by (metis list.set_intros(1))
qed

lemma last_two:
  assumes "2 \<le> length xs"
  shows "drop (length xs - 2) xs = [xs ! (length xs - 2), xs ! (length xs - 1)]"
proof -
  from assms have a: "length xs - 2 < length xs" and b: "length xs - 1 < length xs"
    and c: "Suc (length xs - 2) = length xs - 1" and d: "Suc (length xs - 1) = length xs"
    by simp_all
  have "drop (length xs - 2) xs = xs ! (length xs - 2) # drop (length xs - 1) xs"
    using Cons_nth_drop_Suc [OF a] by (simp add: c)
  also have "drop (length xs - 1) xs = xs ! (length xs - 1) # drop (length xs) xs"
    using Cons_nth_drop_Suc [OF b] by (simp add: d)
  finally show ?thesis by simp
qed

text \<open>
  Claim C5. When the query for the exact hostname yields no record and the hostname has
  more than two labels, the root domain is the last two labels joined by a dot, the
  records gathered are those of the root domain followed by those of the wildcard form
  \<open>%.rootdomain\<close>, the certificate expiry is absent exactly when no record was gathered,
  and otherwise it is the \<open>not_after\<close> of a gathered record whose date is the latest of
  all gathered records.
\<close>

theorem certificate_cascade:
  assumes "fetchCerts w domain = []" and "length (splitOn CHR ''.'' domain) > 2"
  shows "rootDomainOf domain
           = splitOn CHR ''.'' domain ! (length (splitOn CHR ''.'' domain) - 2) @ ''.''
             @ splitOn CHR ''.'' domain ! (length (splitOn CHR ''.'' domain) - 1) \<and>
         accumulateCerts w domain
           = fetchCerts w (rootDomainOf domain) @ fetchCerts w (''%.'' @ rootDomainOf domain) \<and>
         (certExpiryOf getTime w domain = None \<longleftrightarrow> accumulateCerts w domain = []) \<and>
         (accumulateCerts w domain \<noteq> [] \<longrightarrow>
            (\<exists>c \<in> set (accumulateCerts w domain).
               certExpiryOf getTime w domain = Some (not_after c) \<and>
               (\<forall>c' \<in> set (accumulateCerts w domain).
                  getTime (not_after c') \<le> getTime (not_after c))))"
proof -
  from assms(2) have "2 \<le> length (splitOn CHR ''.'' domain)" by simp
  then have root: "rootDomainOf domain
           = splitOn CHR ''.'' domain ! (length (splitOn CHR ''.'' domain) - 2) @ ''.''
             @ splitOn CHR ''.'' domain ! (length (splitOn CHR ''.'' domain) - 1)"
    by (simp add: rootDomainOf_def Let_def last_two)
  have acc: "accumulateCerts w domain
           = fetchCerts w (rootDomainOf domain) @ fetchCerts w (''%.'' @ rootDomainOf domain)"
    using assms by (simp add: accumulateCerts_def Let_def)
  have none: "certExpiryOf getTime w domain = None \<longleftrightarrow> accumulateCerts w domain = []"
    by (simp add: certExpiryOf_def latestExpiry_None)
  have some: "accumulateCerts w domain \<noteq> [] \<longrightarrow>
            (\<exists>c \<in> set (accumulateCerts w domain).
               certExpiryOf getTime w domain = Some (not_after c) \<and>
               (\<forall>c' \<in> set (accumulateCerts w domain).
                  getTime (not_after c') \<le> getTime (not_after c)))"
    unfolding certExpiryOf_def by (rule impI) (rule latestExpiry_max)
  from root acc none some show ?thesis by blast
qed

lemma split_sub_example: "splitOn CHR ''.'' ''sub.example.com'' = [''sub'', ''example'', ''com'']"
  by simp

lemma root_sub_example: "rootDomainOf ''sub.example.com'' = ''example.com''"
  by (simp add: rootDomainOf_def)

lemma certsOnly_answers:
  "fetchCerts certsOnly ''sub.example.com'' = []"
  "fetchCerts certsOnly ''example.com'' = [rootCertA, rootCertB]"
  "fetchCerts certsOnly ''%.example.com'' = [wildCert]"
  by (simp_all add: fetchCerts_def certsOnly_def crtRequest_def)

theorem certificate_cascade_witness:
  "fetchCerts certsOnly ''sub.example.com'' = [] \<and>
   length (splitOn CHR ''.'' ''sub.example.com'') > 2 \<and>
   rootDomainOf ''sub.example.com'' = ''example.com'' \<and>
   accumulateCerts certsOnly ''sub.example.com'' = [rootCertA, rootCertB, wildCert] \<and>
   certExpiryOf demoTime certsOnly ''sub.example.com'' = Some ''2025-09-01T00:00:00''"
proof -
  have h1: "fetchCerts certsOnly ''sub.example.com'' = []"
    by (rule certsOnly_answers)
  have h2: "length (splitOn CHR ''.'' ''sub.example.com'') > 2"
    by simp
  note c = certificate_cascade [OF h1 h2, of demoTime]
  from c have acc: "accumulateCerts certsOnly ''sub.example.com'' = [rootCertA, rootCertB, wildCert]"
    by (simp add: root_sub_example certsOnly_answers)
  have ne: "accumulateCerts certsOnly ''sub.example.com'' \<noteq> []"
    by (simp add: acc)
  from c ne have "\<exists>c \<in> set (accumulateCerts certsOnly ''sub.example.com'').
      certExpiryOf demoTime certsOnly ''sub.example.com'' = Some (not_after c) \<and>
      (\<forall>c' \<in> set (accumulateCerts certsOnly ''sub.example.com'').
         demoTime (not_after c') \<le> demoTime (not_after c))"
    by blast
  then have "certExpiryOf demoTime certsOnly ''sub.example.com'' = Some ''2025-09-01T00:00:00''"
    unfolding acc by (simp add: rootCertA_def rootCertB_def wildCert_def demoTime_def)
  with h1 h2 acc show ?thesis
    by (simp add: root_sub_example)
qed

section \<open>What the resolver writes\<close>

lemma updateDomainCertInfo_no_host:
  "hostnameOf w (url m) = None \<Longrightarrow> updateDomainCertInfo getTime w m st = (st, None)"
  by (simp add: updateDomainCertInfo_def updateBody_def)

lemma updateDomainCertInfo_nothing:
  "hostnameOf w (url m) = Some domain \<Longrightarrow> \<not> truthy (certExpiryOf getTime w domain) \<Longrightarrow>
   \<not> truthy (domainExpiryOf w domain) \<Longrightarrow> updateDomainCertInfo getTime w m st = (st, None)"
  by (simp add: updateDomainCertInfo_def updateBody_def Let_def)

lemma updateDomainCertInfo_found:
  "hostnameOf w (url m) = Some domain \<Longrightarrow>
   truthy (certExpiryOf getTime w domain) \<or> truthy (domainExpiryOf w domain) \<Longrightarrow>
   updateDomainCertInfo getTime w m st
   = (st\<lparr>statements := statements st
            @ [(certExpiryOf getTime w domain, domainExpiryOf w domain, id_m m)],
         row := (if \<not> updateThrows w \<and> id_m (row st) = id_m m
                 then (row st)\<lparr>cert_expiry := certExpiryOf getTime w domain,
                               domain_expiry := domainExpiryOf w domain\<rparr>
                 else row st)\<rparr>, None)"
  by (simp add: updateDomainCertInfo_def updateBody_def Let_def)

lemma updateDomainCertInfo_returns:
  "snd (updateDomainCertInfo getTime w m st) = None"
  by (simp add: updateDomainCertInfo_def split: prod.splits option.splits)

lemma failed_cert_lookups:
  assumes "\<forall>q cs. crt w q \<noteq> CrtRecords cs"
  shows "certExpiryOf getTime w domain = None"
proof -
  have "fetchCerts w d = []" for d
    using assms by (cases "crt w (fst (crtRequest d))") (simp_all add: fetchCerts_def)
  then have "accumulateCerts w domain = []"
    by (simp add: accumulateCerts_def Let_def)
  then show ?thesis
    by (simp add: certExpiryOf_def latestExpiry_def)
qed

lemma failed_domain_lookup:
  assumes "\<forall>evs. rdap w (fst (rdapRequest domain)) \<noteq> RdapData evs"
  shows "domainExpiryOf w domain = None"
  using assms by (cases "rdap w (fst (rdapRequest domain))") (simp_all add: domainExpiryOf_def)

text \<open>
  Claim C8, as the code has it. updateDomainCertInfo never raises. It runs its UPDATE
  exactly when the URL parses and at least one of certificate expiry and domain expiry
  was found (a value that is not null and not empty). When neither was found, also when
  that is because every lookup failed, and when the URL does not parse, the store is left
  as it was, the stored \<open>cert_expiry\<close> and \<open>domain_expiry\<close> included. A failure of one
  lookup alone is not covered: the UPDATE that the other lookup's value causes sets both
  columns.
\<close>

theorem resolver_writes_only_when_found:
  fixes getTime :: "string \<Rightarrow> int" and w :: services and m :: monitor and st :: store
  defines "r \<equiv> updateDomainCertInfo getTime w m st"
  shows
  "snd r = None \<and>
   (hostnameOf w (url m) = None \<longrightarrow> fst r = st) \<and>
   (\<forall>domain. hostnameOf w (url m) = Some domain \<longrightarrow>
      (statements (fst r) \<noteq> statements st \<longleftrightarrow>
         truthy (certExpiryOf getTime w domain) \<or> truthy (domainExpiryOf w domain)) \<and>
      (truthy (certExpiryOf getTime w domain) \<or> truthy (domainExpiryOf w domain) \<longrightarrow>
         statements (fst r)
         = statements st @ [(certExpiryOf getTime w domain, domainExpiryOf w domain, id_m m)]) \<and>
      (\<not> truthy (certExpiryOf getTime w domain) \<and> \<not> truthy (domainExpiryOf w domain) \<longrightarrow>
         fst r = st) \<and>
      ((\<forall>q cs. crt w q \<noteq> CrtRecords cs)
         \<and> (\<forall>evs. rdap w (fst (rdapRequest domain)) \<noteq> RdapData evs) \<longrightarrow>
         fst r = st))"
proof -
  have ret: "snd r = None"
    unfolding r_def by (rule updateDomainCertInfo_returns)
  have nohost: "hostnameOf w (url m) = None \<longrightarrow> fst r = st"
    unfolding r_def by (simp add: updateDomainCertInfo_no_host)
  have host: "(statements (fst r) \<noteq> statements st \<longleftrightarrow>
         truthy (certExpiryOf getTime w domain) \<or> truthy (domainExpiryOf w domain)) \<and>
      (truthy (certExpiryOf getTime w domain) \<or> truthy (domainExpiryOf w domain) \<longrightarrow>
         statements (fst r)
         = statements st @ [(certExpiryOf getTime w domain, domainExpiryOf w domain, id_m m)]) \<and>
      (\<not> truthy (certExpiryOf getTime w domain) \<and> \<not> truthy (domainExpiryOf w domain) \<longrightarrow>
         fst r = st) \<and>
      ((\<forall>q cs. crt w q \<noteq> CrtRecords cs)
         \<and> (\<forall>evs. rdap w (fst (rdapRequest domain)) \<noteq> RdapData evs) \<longrightarrow>
         fst r = st)"
    if h: "hostnameOf w (url m) = Some domain" for domain
  proof (cases "truthy (certExpiryOf getTime w domain) \<or> truthy (domainExpiryOf w domain)")
    case True
    have "\<not> ((\<forall>q cs. crt w q \<noteq> CrtRecords cs)
         \<and> (\<forall>evs. rdap w (fst (rdapRequest domain)) \<noteq> RdapData evs))"
    proof
      assume a: "(\<forall>q cs. crt w q \<noteq> CrtRecords cs)
         \<and> (\<forall>evs. rdap w (fst (rdapRequest domain)) \<noteq> RdapData evs)"
      then have "certExpiryOf getTime w domain = None" and "domainExpiryOf w domain = None"
        by (simp_all add: failed_cert_lookups failed_domain_lookup)
      with True show False by (simp add: truthy_def)
    qed
    moreover have s: "statements (fst r)
         = statements st @ [(certExpiryOf getTime w domain, domainExpiryOf w domain, id_m m)]"
      unfolding r_def by (simp add: updateDomainCertInfo_found [OF h True])
    moreover from s have "statements (fst r) \<noteq> statements st"
      by simp
    ultimately show ?thesis
      using True by blast
  next
    case False
    then have "updateDomainCertInfo getTime w m st = (st, None)"
      using h by (simp add: updateDomainCertInfo_nothing)
    with False show ?thesis
      unfolding r_def by simp
  qed
  from ret nohost host show ?thesis by blast
qed

lemma nothingFound_lookups:
  "certExpiryOf demoTime nothingFound ''sub.example.com'' = None"
  "domainExpiryOf nothingFound ''sub.example.com'' = None"
  by (simp_all add: failed_cert_lookups failed_domain_lookup nothingFound_def)

lemma domainOnly_lookups:
  "certExpiryOf demoTime domainOnly ''sub.example.com'' = None"
  "domainExpiryOf domainOnly ''sub.example.com'' = Some ''2026-02-01T00:00:00Z''"
  by (simp_all add: failed_cert_lookups domainOnly_def domainExpiryOf_def rdapRequest_def)

lemma siteUp_host:
  "hostnameOf nothingFound (url siteUp) = Some ''sub.example.com''"
  "hostnameOf domainOnly (url siteUp) = Some ''sub.example.com''"
  "hostnameOf certsOnly (url siteUp) = Some ''sub.example.com''"
  by (simp_all add: nothingFound_def domainOnly_def certsOnly_def siteUp_def parseHost_def)

theorem resolver_writes_only_when_found_witness:
  "snd (updateDomainCertInfo demoTime nothingFound siteUp store0) = None \<and>
   fst (updateDomainCertInfo demoTime nothingFound siteUp store0) = store0 \<and>
   cert_expiry (row (fst (updateDomainCertInfo demoTime nothingFound siteUp store0)))
     = Some ''2025-03-01T00:00:00'' \<and>
   snd (updateDomainCertInfo demoTime domainOnly siteUp store0) = None \<and>
   statements (fst (updateDomainCertInfo demoTime domainOnly siteUp store0))
     = [(None, Some ''2026-02-01T00:00:00Z'', 1)] \<and>
   fst (updateDomainCertInfo demoTime domainOnly (siteUp\<lparr>url := ''no url at all''\<rparr>) store0) = store0"
proof -
  have a: "snd (updateDomainCertInfo demoTime nothingFound siteUp store0) = None
      \<and> fst (updateDomainCertInfo demoTime nothingFound siteUp store0) = store0"
    using resolver_writes_only_when_found [of demoTime nothingFound siteUp store0]
    by (simp add: siteUp_host nothingFound_lookups truthy_def)
  then have b: "cert_expiry (row (fst (updateDomainCertInfo demoTime nothingFound siteUp store0)))
     = Some ''2025-03-01T00:00:00''"
    by (simp add: store0_def siteUp_def)
  have c: "snd (updateDomainCertInfo demoTime domainOnly siteUp store0) = None
      \<and> statements (fst (updateDomainCertInfo demoTime domainOnly siteUp store0))
          = [(None, Some ''2026-02-01T00:00:00Z'', 1)]"
    using resolver_writes_only_when_found [of demoTime domainOnly siteUp store0]
    by (simp add: siteUp_host domainOnly_lookups truthy_def) (simp add: store0_def siteUp_def)
  have d: "fst (updateDomainCertInfo demoTime domainOnly (siteUp\<lparr>url := ''no url at all''\<rparr>) store0)
      = store0"
    using resolver_writes_only_when_found
      [of demoTime domainOnly "siteUp\<lparr>url := ''no url at all''\<rparr>" store0]
    by (simp add: domainOnly_def parseHost_def)
  from a b c d show ?thesis by blast
qed

text \<open>
  Where the claim as written fails: every certificate query throws, the registration
  lookup finds the expiration, and the stored \<open>cert_expiry\<close> is overwritten with null.
\<close>

theorem failed_cert_lookup_overwrites_counterexample:
  "crt domainOnly (fst (crtRequest ''sub.example.com'')) = CrtThrows \<and>
   cert_expiry (row store0) = Some ''2025-03-01T00:00:00'' \<and>
   cert_expiry (row (fst (updateDomainCertInfo demoTime domainOnly siteUp store0))) = None \<and>
   domain_expiry (row (fst (updateDomainCertInfo demoTime domainOnly siteUp store0)))
     = Some ''2026-02-01T00:00:00Z''"
proof -
  have f: "truthy (certExpiryOf demoTime domainOnly ''sub.example.com'')
           \<or> truthy (domainExpiryOf domainOnly ''sub.example.com'')"
    by (simp add: domainOnly_lookups truthy_def)
  show ?thesis
    by (simp add: updateDomainCertInfo_found [OF siteUp_host(2) f] domainOnly_lookups)
       (simp add: domainOnly_def store0_def siteUp_def)
qed

text \<open>
  Claim C10. The resolver has a single UPDATE that sets both columns. Whenever the URL
  parses, the statement succeeds and at least one expiry was found, the stored
  \<open>cert_expiry\<close> and \<open>domain_expiry\<close> both become the values of this run; so when
  exactly one was found the other column becomes null, whatever it held before. The
  stored values stay exactly when neither was found.
\<close>

theorem single_update_sets_both_columns:
  fixes getTime :: "string \<Rightarrow> int" and w :: services and m :: monitor and st :: store
  defines "r \<equiv> updateDomainCertInfo getTime w m st"
  assumes "hostnameOf w (url m) = Some domain" and "\<not> updateThrows w"
    and "id_m (row st) = id_m m"
  shows
  "(truthy (certExpiryOf getTime w domain) \<or> truthy (domainExpiryOf w domain) \<longrightarrow>
      statements (fst r)
        = statements st @ [(certExpiryOf getTime w domain, domainExpiryOf w domain, id_m m)]
      \<and> cert_expiry (row (fst r)) = certExpiryOf getTime w domain
      \<and> domain_expiry (row (fst r)) = domainExpiryOf w domain) \<and>
   (truthy (certExpiryOf getTime w domain) \<and> domainExpiryOf w domain = None \<longrightarrow>
      domain_expiry (row (fst r)) = None) \<and>
   (certExpiryOf getTime w domain = None \<and> truthy (domainExpiryOf w domain) \<longrightarrow>
      cert_expiry (row (fst r)) = None) \<and>
   (\<not> truthy (certExpiryOf getTime w domain) \<and> \<not> truthy (domainExpiryOf w domain) \<longrightarrow>
      fst r = st)"
proof -
  have found: "statements (fst r)
        = statements st @ [(certExpiryOf getTime w domain, domainExpiryOf w domain, id_m m)]
      \<and> cert_expiry (row (fst r)) = certExpiryOf getTime w domain
      \<and> domain_expiry (row (fst r)) = domainExpiryOf w domain"
    if f: "truthy (certExpiryOf getTime w domain) \<or> truthy (domainExpiryOf w domain)"
    unfolding r_def using assms(3,4)
    by (simp add: updateDomainCertInfo_found [OF assms(2) f])
  have none: "fst r = st"
    if "\<not> truthy (certExpiryOf getTime w domain)" and "\<not> truthy (domainExpiryOf w domain)"
    unfolding r_def using that by (simp add: updateDomainCertInfo_nothing [OF assms(2)])
  from found none show ?thesis by metis
qed

lemma certsOnly_lookups:
  "certExpiryOf demoTime certsOnly ''sub.example.com'' = Some ''2025-09-01T00:00:00''"
  "domainExpiryOf certsOnly ''sub.example.com'' = None"
proof -
  have "accumulateCerts certsOnly ''sub.example.com'' = [rootCertA, rootCertB, wildCert]"
    by (simp add: accumulateCerts_def Let_def certsOnly_answers root_sub_example)
  then show "certExpiryOf demoTime certsOnly ''sub.example.com'' = Some ''2025-09-01T00:00:00''"
    by (simp add: certExpiryOf_def latestExpiry_def latestFirst_def demoTime_def
        rootCertA_def rootCertB_def wildCert_def)
  show "domainExpiryOf certsOnly ''sub.example.com'' = None"
    by (simp add: domainExpiryOf_def certsOnly_def)
qed

theorem single_update_sets_both_columns_witness:
  "hostnameOf certsOnly (url siteUp) = Some ''sub.example.com'' \<and>
   updateThrows certsOnly = False \<and>
   id_m (row store0) = id_m siteUp \<and>
   domain_expiry (row store0) = Some ''2025-09-01T00:00:00'' \<and>
   statements (fst (updateDomainCertInfo demoTime certsOnly siteUp store0))
     = [(Some ''2025-09-01T00:00:00'', None, 1)] \<and>
   cert_expiry (row (fst (updateDomainCertInfo demoTime certsOnly siteUp store0)))
     = Some ''2025-09-01T00:00:00'' \<and>
   domain_expiry (row (fst (updateDomainCertInfo demoTime certsOnly siteUp store0))) = None"
proof -
  have h1: "hostnameOf certsOnly (url siteUp) = Some ''sub.example.com''"
    by (rule siteUp_host)
  have h2: "\<not> updateThrows certsOnly"
    by (simp add: certsOnly_def)
  have h3: "id_m (row store0) = id_m siteUp"
    by (simp add: store0_def)
  have s: "statements store0 = []" "id_m siteUp = 1"
    "domain_expiry (row store0) = Some ''2025-09-01T00:00:00''"
    by (simp_all add: store0_def siteUp_def)
  from single_update_sets_both_columns [OF h1 h2 h3, of demoTime] h1 h2 h3 s
  show ?thesis
    by (simp add: certsOnly_lookups truthy_def)
qed

section \<open>The signed webhook URL\<close>

lemma orStr_nonempty: "d \<noteq> [] \<Longrightarrow> orStr v d \<noteq> []"
  by (simp add: orStr_def split: option.splits)

lemma credentials_nonempty: "accessTokenOf e \<noteq> []" "secretOf e \<noteq> []"
  by (simp_all add: accessTokenOf_def secretOf_def orStr_nonempty)

lemma btoa_examples:
  "btoa (encode ''Man'') = ''TWFu''"
  "btoa (encode ''Ma'') = ''TWE=''"
  "btoa (encode ''M'') = ''TQ==''"
  by (simp_all add: encode_def b64char_def)

lemma encodeURIComponent_example: "encodeURIComponent ''+/8='' = ''%2B%2F8%3D''"
  by (simp add: encodeURIComponent_def unreserved_def hexDigit_def)

text \<open>
  Claim C9. sendDingTalkAlert always sends, and the URL it posts to is the webhook
  endpoint with the query parameters \<open>access_token\<close>, \<open>timestamp\<close> and \<open>sign\<close>, where
  \<open>sign\<close> is the documented signature of the secret and the timestamp's decimal text:
  HMAC-SHA256 of timestamp, line feed and secret, keyed by the secret's UTF-8 bytes,
  Base64-encoded and then percent-encoded. The value is a function of secret and
  timestamp alone.
\<close>

theorem webhook_url_signed:
  "\<exists>options. sendDingTalkAlert subtle e m message timestamp sendTime
     = Some (''https://oapi.dingtalk.com/robot/send?access_token='' @ accessTokenOf e
             @ ''&timestamp='' @ showInt timestamp
             @ ''&sign='' @ documentedSign subtle (secretOf e) (showInt timestamp),
             options)"
  by (simp add: sendDingTalkAlert_def documentedSign_def Let_def credentials_nonempty)

lemma showInt_1735689601000: "showInt 1735689601000 = ''1735689601000''"
  by (simp add: showInt_def showNat_large showNat_small digit_def)

theorem webhook_url_signed_witness:
  "\<exists>options. sendDingTalkAlert fixedBytes robotEnv siteUp ''Monitor is DOWN: HTTP 500''
       1735689601000 ''1/1/2025, 12:00:01 AM''
     = Some (''https://oapi.dingtalk.com/robot/send?access_token=tok123&timestamp=1735689601000&sign=%2B%2F%2B%2B'',
             options)"
  using webhook_url_signed [of fixedBytes robotEnv siteUp "''Monitor is DOWN: HTTP 500''"
      1735689601000 "''1/1/2025, 12:00:01 AM''"]
  by (simp add: documentedSign_def fixedBytes_def b64char_def encodeURIComponent_def
      unreserved_def hexDigit_def accessTokenOf_def secretOf_def robotEnv_def orStr_def
      showInt_1735689601000)

section \<open>Requests and time limits\<close>

text \<open>
  Claim C4, as the code has it. None of the requests of the core carries a time limit.
  The options of the probe's request are \<open>method\<close>, \<open>headers\<close> and \<open>cf\<close>, those of the
  alert's POST are \<open>method\<close>, \<open>headers\<close> and \<open>body\<close>, the certificate lookup passes
  \<open>headers\<close> alone and the registration lookup no options: no request has an abort
  signal or a timeout among its options.
\<close>

theorem requests_without_timeout:
  "map fst (snd (probeRequest m)) = [''method'', ''headers'', ''cf''] \<and>
   hasTimeout (probeRequest m) = False \<and>
   (\<exists>r. sendDingTalkAlert subtle e m message timestamp sendTime = Some r
        \<and> map fst (snd r) = [''method'', ''headers'', ''body''] \<and> hasTimeout r = False) \<and>
   map fst (snd (crtRequest searchDomain)) = [''headers''] \<and>
   hasTimeout (crtRequest searchDomain) = False \<and>
   snd (rdapRequest domain) = [] \<and>
   hasTimeout (rdapRequest domain) = False"
  by (simp add: probeRequest_def crtRequest_def rdapRequest_def hasTimeout_def
      sendDingTalkAlert_def Let_def credentials_nonempty)

text \<open>
  Where the claim as written fails: the request that probes a concrete target has no
  time limit among its options.
\<close>

theorem probe_without_timeout_counterexample:
  "probeRequest siteUp
     = (''https://sub.example.com/health'',
        [(''method'', JStr ''GET''),
         (''headers'', JObj [(''User-Agent'', JStr ''Uptime-Monitor/1.0'')]),
         (''cf'', JObj [(''cacheTtl'', JNum 0), (''cacheEverything'', JBool False)])]) \<and>
   hasTimeout (probeRequest siteUp) = False"
  by (simp add: probeRequest_def hasTimeout_def siteUp_def orStr_def)

end
